theory Spec2Isabelle
  imports Main
begin

section \<open>Values, schemas and messages\<close>

text \<open>
  The two scripts of the repository configure an agent framework.  The values that cross
  the boundary are JavaScript objects; the ones the code touches are modelled by
  \<open>json\<close>.  An object is an association list; a property read takes the first binding
  of the key.
\<close>

datatype json =
    JNull
  | JBool bool
  | JNum int
  | JStr string
  | JArr "json list"
  | JObj "(string \<times> json) list"

text \<open>
  The schema constructors the source uses: \<^verbatim>\<open>z.string()\<close>, \<^verbatim>\<open>z.string().min(n)\<close>,
  \<^verbatim>\<open>.describe(text)\<close> and \<^verbatim>\<open>z.object({...})\<close>.
\<close>

datatype zschema =
    ZString
  | ZStringMin nat
  | ZDescribe zschema string
  | ZObject "(string \<times> zschema) list"

text \<open>
  Modelled from the spec: the external validation layer behind the schemas (the \<^verbatim>\<open>zod\<close>
  package, not under src/).  A string schema accepts strings, \<^verbatim>\<open>min(n)\<close> adds a lower
  bound on the length, a description changes nothing, and an object schema requires
  every key of its shape to be present with a valid value; keys outside the shape are
  dropped from the parsed result.
\<close>

fun zparse :: "zschema \<Rightarrow> json \<Rightarrow> json option"
and zparse_shape ::
  "(string \<times> zschema) list \<Rightarrow> (string \<times> json) list \<Rightarrow> (string \<times> json) list option"
where
  "zparse ZString v = (case v of JStr s \<Rightarrow> Some (JStr s) | _ \<Rightarrow> None)"
| "zparse (ZStringMin n) v =
     (case v of JStr s \<Rightarrow> if n \<le> length s then Some (JStr s) else None | _ \<Rightarrow> None)"
| "zparse (ZDescribe z d) v = zparse z v"
| "zparse (ZObject shape) v =
     (case v of JObj kvs \<Rightarrow> map_option JObj (zparse_shape shape kvs) | _ \<Rightarrow> None)"
| "zparse_shape [] kvs = Some []"
| "zparse_shape ((k, z) # shape) kvs =
     (case map_of kvs k of
        None \<Rightarrow> None
      | Some x \<Rightarrow>
          (case zparse z x of
             None \<Rightarrow> None
           | Some y \<Rightarrow> map_option ((#) (k, y)) (zparse_shape shape kvs)))"

text \<open>
  \<^verbatim>\<open>BaseMessage\<close>: a role and a text (field \<open>msg_text\<close>).  Roles are strings in the
  framework.
\<close>

record message =
  role :: string
  msg_text :: string

definition Role_USER :: string where
  "Role_USER = ''user''"

definition Role_ASSISTANT :: string where
  "Role_ASSISTANT = ''assistant''"

definition BaseMessage_of :: "message \<Rightarrow> message" where
  "BaseMessage_of m = m"

text \<open>Errors the framework raises; the code of the repository never inspects them.\<close>

datatype error =
    ParseFailure
  | LLMFailure string
  | TemplateError string
  | OtherError string


section \<open>Prompt templates\<close>

text \<open>
  Modelled from the spec: \<^verbatim>\<open>PromptTemplate\<close> and its \<^verbatim>\<open>render\<close> method (framework code, not
  under src/).  The spec says a template renders with the supplied strings substituted
  verbatim.  The templates of the source are written in the Mustache notation, of which
  they use text, variables \<^verbatim>\<open>{{name}}\<close> and sections \<^verbatim>\<open>{{#name}}...{{/name}}\<close>; the model
  covers these three and refuses any other kind of tag.
\<close>

datatype tag = TText string | TName string | TOpen string | TClose string

datatype token = Text string | Name string | Section string "token list"

definition is_space :: "char \<Rightarrow> bool" where
  "is_space c \<longleftrightarrow> c = CHR '' '' \<or> c = CHR 0x0A \<or> c = CHR 0x09 \<or> c = CHR 0x0D"

definition trim :: "string \<Rightarrow> string" where
  "trim s = rev (dropWhile is_space (rev (dropWhile is_space s)))"

definition text_tag :: "string \<Rightarrow> tag list" where
  "text_tag acc = (if acc = [] then [] else [TText (rev acc)])"

text \<open>
  A tag is classified by its first character.  Inverted sections, partials, comments,
  delimiter changes, unescaped variables and dotted names are not modelled: such a
  template does not parse.
\<close>

definition make_tag :: "string \<Rightarrow> tag option" where
  "make_tag s =
     (case trim s of
        [] \<Rightarrow> None
      | c # n \<Rightarrow>
          if CHR ''.'' \<in> set (c # n) then None
          else if c = CHR ''#'' then Some (TOpen (trim n))
          else if c = CHR ''/'' then Some (TClose (trim n))
          else if c \<in> set ''^>!=&{'' then None
          else Some (TName (c # n)))"

text \<open>
  \<open>scan in_tag acc cs\<close> cuts the template at the delimiters; \<open>acc\<close> holds the characters
  of the piece being read, last one first.
\<close>

fun scan :: "bool \<Rightarrow> string \<Rightarrow> string \<Rightarrow> tag list option" where
  "scan False acc [] = Some (text_tag acc)"
| "scan True acc [] = None"
| "scan False acc [c] = Some (text_tag (c # acc))"
| "scan True acc [c] = None"
| "scan False acc (c # d # cs) =
     (if c = CHR ''{'' \<and> d = CHR ''{''
      then map_option ((@) (text_tag acc)) (scan True [] cs)
      else scan False (c # acc) (d # cs))"
| "scan True acc (c # d # cs) =
     (if c = CHR ''}'' \<and> d = CHR ''}''
      then (case make_tag (rev acc) of
              None \<Rightarrow> None
            | Some t \<Rightarrow> map_option ((#) t) (scan False [] cs))
      else scan True (c # acc) (d # cs))"

text \<open>
  \<open>nest tags acc stack\<close> builds the sections: \<open>acc\<close> holds the tokens of the section
  being read, last one first, and \<open>stack\<close> the enclosing open sections.
\<close>

fun nest ::
  "tag list \<Rightarrow> token list \<Rightarrow> (string \<times> token list) list \<Rightarrow> token list option"
where
  "nest [] acc [] = Some (rev acc)"
| "nest [] acc (unclosed # stack) = None"
| "nest (TText s # ts) acc stack = nest ts (Text s # acc) stack"
| "nest (TName n # ts) acc stack = nest ts (Name n # acc) stack"
| "nest (TOpen n # ts) acc stack = nest ts [] ((n, acc) # stack)"
| "nest (TClose n # ts) acc [] = None"
| "nest (TClose n # ts) acc ((m, outer) # stack) =
     (if n = m then nest ts (Section n (rev acc) # outer) stack else None)"

definition parseTemplate :: "string \<Rightarrow> token list option" where
  "parseTemplate s =
     (case scan False [] s of None \<Rightarrow> None | Some tags \<Rightarrow> nest tags [] [])"

text \<open>How JavaScript turns a value into a string when it is appended to the output.\<close>

fun digits :: "nat \<Rightarrow> string" where
  "digits n =
     (if n < 10 then [char_of (48 + n)]
      else digits (n div 10) @ [char_of (48 + n mod 10)])"

fun js_string :: "json \<Rightarrow> string"
and js_join :: "json list \<Rightarrow> string" where
  "js_string JNull = ''null''"
| "js_string (JBool b) = (if b then ''true'' else ''false'')"
| "js_string (JNum n) = (if n < 0 then ''-'' @ digits (nat (- n)) else digits (nat n))"
| "js_string (JStr s) = s"
| "js_string (JArr xs) = js_join xs"
| "js_string (JObj kvs) = ''[object Object]''"
| "js_join [] = []"
| "js_join [x] = (if x = JNull then [] else js_string x)"
| "js_join (x # y # ys) =
     (if x = JNull then [] else js_string x) @ '','' @ js_join (y # ys)"

text \<open>
  A name is looked up in the innermost context that is an object with that key, then
  outwards.
\<close>

fun lookup :: "json list \<Rightarrow> string \<Rightarrow> json option" where
  "lookup [] n = None"
| "lookup (JObj kvs # ctx) n =
     (case map_of kvs n of Some v \<Rightarrow> Some v | None \<Rightarrow> lookup ctx n)"
| "lookup (c # ctx) n = lookup ctx n"

text \<open>
  A variable renders its value as it is (no escaping).  A section renders nothing for
  a missing or falsy value, once per element for an array, and once for any other value.
\<close>

fun renderToken :: "json list \<Rightarrow> token \<Rightarrow> string" where
  "renderToken ctx (Text s) = s"
| "renderToken ctx (Name n) =
     (case lookup ctx n of
        None \<Rightarrow> []
      | Some v \<Rightarrow> if v = JNull then [] else js_string v)"
| "renderToken ctx (Section n inner) =
     (case lookup ctx n of
        None \<Rightarrow> []
      | Some v \<Rightarrow>
          (case v of
             JNull \<Rightarrow> []
           | JBool b \<Rightarrow> if b then concat (map (renderToken ctx) inner) else []
           | JNum k \<Rightarrow> if k = 0 then [] else concat (map (renderToken (v # ctx)) inner)
           | JStr s \<Rightarrow> if s = [] then [] else concat (map (renderToken (v # ctx)) inner)
           | JArr items \<Rightarrow>
               concat (map (\<lambda>item. concat (map (renderToken (item # ctx)) inner)) items)
           | JObj kvs \<Rightarrow> concat (map (renderToken (v # ctx)) inner)))"

definition renderTokens :: "json list \<Rightarrow> token list \<Rightarrow> string" where
  "renderTokens ctx tokens = concat (map (renderToken ctx) tokens)"

text \<open>
  The \<^verbatim>\<open>schema\<close> of a template is a zod schema in the agent class and a plain object
  literal in the chat model setup.  The object literal has no schema keyword in it, so
  it constrains nothing.
\<close>

datatype template_schema = ZodSchema zschema | PlainObject json

record PromptTemplate =
  schema :: template_schema
  template :: string

fun validateInput :: "template_schema \<Rightarrow> json \<Rightarrow> bool" where
  "validateInput (ZodSchema z) input = (zparse z input \<noteq> None)"
| "validateInput (PlainObject j) input = True"

definition PromptTemplate_render :: "PromptTemplate \<Rightarrow> json \<Rightarrow> error + string" where
  "PromptTemplate_render t input =
     (if \<not> validateInput (schema t) input then Inl (TemplateError ''invalid input'')
      else case parseTemplate (template t) of
             None \<Rightarrow> Inl (TemplateError ''malformed template'')
           | Some tokens \<Rightarrow> Inr (renderTokens [input] tokens))"


section \<open>Agent input and output definitions\<close>

record RunInput =
  message :: message

record agent_state =
  thought :: string
  final_answer :: string

record RunOutput =
  message :: message
  state :: agent_state

record RunOptions =
  maxRetries :: "nat option"

datatype AbortSignal = AbortSignal bool

record RunContext =
  signal :: AbortSignal

text \<open>What \<^verbatim>\<open>_run\<close> hands to the driver and what it reads from the driver's answer.\<close>

record LLMOptions =
  signal :: AbortSignal

record GenerateOptions =
  maxRetries :: "nat option"
  options :: LLMOptions

record DriverResponse =
  raw :: json
  parsed :: agent_state

text \<open>
  The structured-output driver is an object of the framework; the agent only calls its
  \<^verbatim>\<open>generate\<close> method, so an agent holds that method as a function.  A rejected promise
  is the \<open>Inl\<close> branch.
\<close>

type_synonym driver =
  "zschema \<Rightarrow> message list \<Rightarrow> GenerateOptions \<Rightarrow> error + DriverResponse"

text \<open>
  \<^verbatim>\<open>UnconstrainedMemory\<close>, the memory the script gives the agent: the list of messages,
  \<^verbatim>\<open>add\<close> appends.
\<close>

type_synonym memory = "message list"

definition memory_add :: "memory \<Rightarrow> message \<Rightarrow> memory" where
  "memory_add mem m = mem @ [m]"

text \<open>
  A chat model answers a list of messages.  The model is remote, so its answers are
  given from outside: \<open>llm msgs i\<close> is the answer to the \<open>i\<close>-th request of a call, which
  is a failure of the request, a text that is not JSON, or a JSON value.
\<close>

datatype reply = Failed error | Unparsable string | Json json

type_synonym ChatLLM = "message list \<Rightarrow> nat \<Rightarrow> reply"

record AgentInput =
  llm :: ChatLLM
  memory :: memory


section \<open>The structured-output driver\<close>

text \<open>
  The typed view of a parsed object, as the TypeScript type of \<^verbatim>\<open>response.parsed\<close>
  has it.
\<close>

definition state_of_json :: "json \<Rightarrow> agent_state option" where
  "state_of_json v =
     (case v of
        JObj kvs \<Rightarrow>
          (case map_of kvs ''thought'' of
             Some (JStr t) \<Rightarrow>
               (case map_of kvs ''final_answer'' of
                  Some (JStr a) \<Rightarrow> Some \<lparr>thought = t, final_answer = a\<rparr>
                | _ \<Rightarrow> None)
           | _ \<Rightarrow> None)
      | _ \<Rightarrow> None)"

text \<open>
  Modelled from the spec: \<^verbatim>\<open>JsonDriver\<close> (framework code, not under src/), ``a
  structured-output driver that accepts a response schema and returns a parsed result
  matching it, retrying on parse failure up to a configured bound''.  One attempt is one
  request to the chat model; its answer is validated against the schema.  A failed
  request ends the call with its error.  How the driver words the request from its
  template is not modelled.
\<close>

definition parse_reply :: "zschema \<Rightarrow> reply \<Rightarrow> error + DriverResponse" where
  "parse_reply sch r =
     (case r of
        Failed e \<Rightarrow> Inl e
      | Unparsable t \<Rightarrow> Inl ParseFailure
      | Json v \<Rightarrow>
          (case zparse sch v of
             None \<Rightarrow> Inl ParseFailure
           | Some obj \<Rightarrow>
               (case state_of_json obj of
                  None \<Rightarrow> Inl ParseFailure
                | Some st \<Rightarrow> Inr \<lparr>raw = v, parsed = st\<rparr>)))"

text \<open>
  \<open>JsonDriver_attempt chat sch input i k\<close>: request number \<open>i\<close> with \<open>k\<close> retries left.  The
  result comes with the number of requests sent so far.
\<close>

fun JsonDriver_attempt ::
  "ChatLLM \<Rightarrow> zschema \<Rightarrow> message list \<Rightarrow> nat \<Rightarrow> nat \<Rightarrow> (error + DriverResponse) \<times> nat"
where
  "JsonDriver_attempt chat sch input i 0 = (parse_reply sch (chat input i), Suc i)"
| "JsonDriver_attempt chat sch input i (Suc k) =
     (if parse_reply sch (chat input i) = Inl ParseFailure
      then JsonDriver_attempt chat sch input (Suc i) k
      else (parse_reply sch (chat input i), Suc i))"

text \<open>
  The bound is \<^verbatim>\<open>maxRetries\<close> of the options.  The bound the framework takes when the
  caller gives none is not stated by the spec; it is the parameter \<open>dflt\<close>.
\<close>

definition retry_bound :: "nat \<Rightarrow> GenerateOptions \<Rightarrow> nat" where
  "retry_bound dflt opts =
     (case GenerateOptions.maxRetries opts of None \<Rightarrow> dflt | Some n \<Rightarrow> n)"

definition JsonDriver_generate :: "nat \<Rightarrow> ChatLLM \<Rightarrow> driver" where
  "JsonDriver_generate dflt chat sch input opts =
     fst (JsonDriver_attempt chat sch input 0 (retry_bound dflt opts))"

definition JsonDriver_requests ::
  "nat \<Rightarrow> ChatLLM \<Rightarrow> zschema \<Rightarrow> message list \<Rightarrow> GenerateOptions \<Rightarrow> nat"
where
  "JsonDriver_requests dflt chat sch input opts =
     snd (JsonDriver_attempt chat sch input 0 (retry_bound dflt opts))"

definition JsonDriver_fromTemplate :: "nat \<Rightarrow> PromptTemplate \<Rightarrow> ChatLLM \<Rightarrow> driver" where
  "JsonDriver_fromTemplate dflt t chat = JsonDriver_generate dflt chat"


section \<open>The agent class\<close>

record CustomGermanAgent =
  driver :: driver
  memory :: memory

text \<open>
  The static \<^verbatim>\<open>systemPrompt\<close>.  Its template is the text before the placeholder, the
  placeholder and the text after it.
\<close>

definition systemPrompt_before :: string where
  "systemPrompt_before =
     ''## System Instructions\<newline>'' @
     ''\<newline>'' @
     ''You are a knowledgeable and friendly AI assistant named Thomas.\<newline>'' @
     ''Your role is to help users by answering their questions, providing information, and offering guidance to the best of your abilities. When responding, use a warm and professional tone, and break down complex topics into easy-to-understand explanations. \<newline>'' @
     ''If you are unsure about an answer, it's okay to say you don't know rather than guessing.\<newline>'' @
     ''You must understand all languages but you must answer always in proper german language.\<newline>'' @
     ''If there are terms that are technical topics in English and they are commonly known in English, don't translate the keywords.\<newline>'' @
     ''\<newline>'' @
     ''```\<newline>''"

definition systemPrompt_after :: string where
  "systemPrompt_after =
     ''\<newline>'' @
     ''```\<newline>'' @
     ''\<newline>'' @
     ''IMPORTANT: Every answer must be a parsable JSON string without additional output.\<newline>''"

definition systemPrompt :: PromptTemplate where
  "systemPrompt =
     \<lparr>schema = ZodSchema (ZObject [(''schema'', ZStringMin 1)]),
      template = systemPrompt_before @ ''{{schema}}'' @ systemPrompt_after\<rparr>"

text \<open>The response schema built in \<^verbatim>\<open>_run\<close>.\<close>

definition response_schema :: zschema where
  "response_schema =
     ZObject
       [(''thought'',
           ZDescribe ZString
             ''Describe your thought process before coming with a final answer''),
        (''final_answer'',
           ZDescribe ZString
             ''Here you should provide concise answer to the original question.'')]"

text \<open>
  \<^verbatim>\<open>_run\<close>.  The agent object is mutated through \<^verbatim>\<open>this.memory.add\<close>, so the agent is
  passed in and returned.  \<open>generate_options\<close> is the third argument of
  \<^verbatim>\<open>this.driver.generate\<close>; \<^verbatim>\<open>options?.maxRetries\<close> reads through an options object that
  may be absent.
\<close>

definition generate_options :: "RunOptions option \<Rightarrow> RunContext \<Rightarrow> GenerateOptions" where
  "generate_options opts run =
     \<lparr>GenerateOptions.maxRetries =
        (case opts of None \<Rightarrow> None | Some os \<Rightarrow> RunOptions.maxRetries os),
      options = \<lparr>LLMOptions.signal = RunContext.signal run\<rparr>\<rparr>"

definition CustomGermanAgent_run ::
  "CustomGermanAgent \<Rightarrow> RunInput \<Rightarrow> RunOptions option \<Rightarrow> RunContext
     \<Rightarrow> (error + RunOutput) \<times> CustomGermanAgent"
where
  "CustomGermanAgent_run this input opts run =
     (case driver this response_schema
             (memory this @ [RunInput.message input])
             (generate_options opts run) of
        Inl e \<Rightarrow> (Inl e, this)
      | Inr response \<Rightarrow>
          (let result =
                 BaseMessage_of
                   \<lparr>role = Role_ASSISTANT, msg_text = final_answer (parsed response)\<rparr>;
               this' = this\<lparr>memory := memory_add (memory this) result\<rparr>
           in (Inr \<lparr>RunOutput.message = result, state = parsed response\<rparr>, this')))"


text \<open>
  The constructor.  \<open>dflt\<close> is the retry bound of the framework for a call that
  gives none.
\<close>

definition CustomGermanAgent_new :: "nat \<Rightarrow> AgentInput \<Rightarrow> CustomGermanAgent" where
  "CustomGermanAgent_new dflt input =
     \<lparr>driver = JsonDriver_fromTemplate dflt systemPrompt (AgentInput.llm input),
      memory = AgentInput.memory input\<rparr>"

text \<open>
  Modelled from the spec: \<^verbatim>\<open>BaseAgent.run\<close> (framework code, not under src/), ``a base
  agent abstraction providing a run(input) \<rightarrow> output call''.  It calls \<^verbatim>\<open>_run\<close> with the
  options it was given and a fresh run context.
\<close>

definition BaseAgent_run ::
  "CustomGermanAgent \<Rightarrow> RunInput \<Rightarrow> RunOptions option
     \<Rightarrow> (error + RunOutput) \<times> CustomGermanAgent"
where
  "BaseAgent_run this input opts =
     CustomGermanAgent_run this input opts \<lparr>RunContext.signal = AbortSignal False\<rparr>"


section \<open>Chat model setup\<close>

text \<open>The chat prompt template of the script.\<close>

definition template :: PromptTemplate where
  "template =
     \<lparr>schema =
        PlainObject
          (JObj [(''messages'',
                  JObj [(''system'', JStr []),
                        (''user'', JStr []),
                        (''assistant'', JStr [])])]),
      template =
        ''{{#messages}}{{#system}}<|begin_of_text|><|start_header_id|>system<|end_header_id|>\<newline>'' @
        ''  \<newline>'' @
        ''  {{system}}<|eot_id|>{{/system}}{{#user}}<|start_header_id|>user<|end_header_id|>\<newline>'' @
        ''  \<newline>'' @
        ''  {{user}}<|eot_id|>{{/user}}{{#assistant}}<|start_header_id|>assistant<|end_header_id|>\<newline>'' @
        ''  \<newline>'' @
        ''  {{assistant}}<|eot_id|>{{/assistant}}{{/messages}}<|start_header_id|>assistant<|end_header_id|>\<newline>'' @
        ''  \<newline>'' @
        ''  ''\<rparr>"

text \<open>
  \<^verbatim>\<open>messagesToPrompt\<close>; \<open>message_lists\<close> is the function it maps over the messages.
\<close>

definition message_lists :: "message \<Rightarrow> json" where
  "message_lists msg =
     JObj [(''system'',
              if role msg = ''system'' then JArr [JStr (msg_text msg)] else JArr []),
           (''user'',
              if role msg = ''user'' then JArr [JStr (msg_text msg)] else JArr []),
           (''assistant'',
              if role msg = ''assistant'' then JArr [JStr (msg_text msg)] else JArr [])]"

definition messagesToPrompt :: "message list \<Rightarrow> error + string" where
  "messagesToPrompt messages =
     PromptTemplate_render template
       (JObj [(''messages'', JArr (map message_lists messages))])"

text \<open>
  Modelled from the spec: \<^verbatim>\<open>WatsonXChatLLM\<close> (framework code, not under src/).  The chat
  model turns the messages into one prompt with the configured \<^verbatim>\<open>messagesToPrompt\<close> and
  sends it to the hosted model \<open>remote\<close>.
\<close>

definition WatsonXChatLLM ::
  "(string \<Rightarrow> nat \<Rightarrow> reply) \<Rightarrow> (message list \<Rightarrow> error + string) \<Rightarrow> ChatLLM"
where
  "WatsonXChatLLM remote toPrompt messages i =
     (case toPrompt messages of Inl e \<Rightarrow> Failed e | Inr prompt \<Rightarrow> remote prompt i)"

text \<open>
  The rendering the claims describe, written from their words: the header of a role,
  and the segment of one message.
\<close>

definition header :: "string \<Rightarrow> string" where
  "header r = ''<|start_header_id|>'' @ r @ ''<|end_header_id|>'' @ ''\<newline>  \<newline>  ''"

definition segment :: "message \<Rightarrow> string" where
  "segment m =
     (if role m = ''system'' then ''<|begin_of_text|>'' else []) @
     header (role m) @ msg_text m @ ''<|eot_id|>''"


text \<open>The tokens of the \<^verbatim>\<open>messages\<close> section of the chat template.\<close>

definition message_tokens :: "token list" where
  "message_tokens =
     [Section ''system''
        [Text (''<|begin_of_text|>'' @ header ''system''), Name ''system'', Text ''<|eot_id|>''],
      Section ''user'' [Text (header ''user''), Name ''user'', Text ''<|eot_id|>''],
      Section ''assistant''
        [Text (header ''assistant''), Name ''assistant'', Text ''<|eot_id|>'']]"


section \<open>The scripts\<close>

text \<open>
  What a script does to the outside is the list of lines it writes, by channel, and
  the exit code it sets.  Once \<^verbatim>\<open>process.exit\<close> has been called nothing more happens.  A
  process that ends without a call of \<^verbatim>\<open>process.exit\<close> ends with status 0.
\<close>

datatype output_line =
    ConsoleInfo string
  | ConsoleError string
  | ReaderWrite string string
  | LoggerError string

record process =
  written :: "output_line list"
  exit_code :: "nat option"

definition init_process :: process where
  "init_process = \<lparr>written = [], exit_code = None\<rparr>"

definition emit :: "output_line list \<Rightarrow> process \<Rightarrow> process" where
  "emit os p = (if exit_code p = None then p\<lparr>written := written p @ os\<rparr> else p)"

definition process_exit :: "nat \<Rightarrow> process \<Rightarrow> process" where
  "process_exit c p = (if exit_code p = None then p\<lparr>exit_code := Some c\<rparr> else p)"

definition exit_status :: "process \<Rightarrow> nat" where
  "exit_status p = (case exit_code p of None \<Rightarrow> 0 | Some c \<Rightarrow> c)"

text \<open>
  \<^verbatim>\<open>try { body } catch (error) { handler }\<close>: the body either completes or throws, and
  the handler runs on what was thrown.
\<close>

definition try_catch ::
  "(process \<Rightarrow> (error + unit) \<times> process) \<Rightarrow> (error \<Rightarrow> process \<Rightarrow> process)
     \<Rightarrow> process \<Rightarrow> process"
where
  "try_catch body handler p =
     (case body p of (Inl e, p') \<Rightarrow> handler e p' | (Inr u, p') \<Rightarrow> p')"

text \<open>
  Everything the scripts get from outside: the framework's error utilities
  (\<^verbatim>\<open>FrameworkError.ensure\<close>, \<^verbatim>\<open>dump\<close>), the hosted model, the framework's own retry bound,
  the events the framework emits during the run of script 1, and for script 2 the
  helper \<^verbatim>\<open>getPrompt\<close> and the framework's \<^verbatim>\<open>BeeAgent\<close>.
\<close>

datatype event =
    AgentStart
  | AgentError error
  | AgentRetry
  | AgentUpdate string string
  | LLMStart string
  | LLMSuccess string
  | LLMError string
  | OtherEvent

record execution =
  maxIterations :: nat
  maxRetriesPerStep :: nat
  totalMaxRetries :: nat

record world =
  ensure :: "error \<Rightarrow> error"
  dump :: "error \<Rightarrow> string"
  remote :: "string \<Rightarrow> nat \<Rightarrow> reply"
  default_maxRetries :: nat
  events :: "event list"
  getPrompt :: "string \<Rightarrow> error + string"
  BeeAgent_run :: "string \<Rightarrow> execution \<Rightarrow> error + string"

definition FrameworkError_dump :: "world \<Rightarrow> error \<Rightarrow> string" where
  "FrameworkError_dump w e = dump w (ensure w e)"

text \<open>The robot and the bust of the prefixes, as UTF-8.\<close>

definition robot :: string where
  "robot = [CHR 0xF0, CHR 0x9F, CHR 0xA4, CHR 0x96]"

definition bust :: string where
  "bust = [CHR 0xF0, CHR 0x9F, CHR 0x91, CHR 0xA4]"

definition agent_prefix :: string where
  "agent_prefix = ''Agent '' @ robot @ '' : ''"

text \<open>
  The callbacks script 1 registers with \<^verbatim>\<open>observe\<close>: what they write for one event.
  The events named \<^verbatim>\<open>start\<close>, \<^verbatim>\<open>success\<close> and \<^verbatim>\<open>error\<close> of the chat model are the ones the
  \<^verbatim>\<open>match\<close> callback prints.
\<close>

fun observer :: "world \<Rightarrow> event \<Rightarrow> output_line list" where
  "observer w AgentStart = [ReaderWrite agent_prefix ''starting new iteration'']"
| "observer w (AgentError e) = [ReaderWrite agent_prefix (FrameworkError_dump w e)]"
| "observer w AgentRetry = [ReaderWrite agent_prefix ''retrying the action...'']"
| "observer w (AgentUpdate k v) = [ReaderWrite (''Agent ('' @ k @ '') '' @ robot @ '' : '') v]"
| "observer w (LLMStart i) = [ConsoleInfo ''LLM Input'', ConsoleInfo i]"
| "observer w (LLMSuccess r) = [ConsoleInfo ''LLM Output'', ConsoleInfo r]"
| "observer w (LLMError d) = [ConsoleError d]"
| "observer w OtherEvent = []"

subsection \<open>Script 1: the custom agent without tools\<close>

definition chatLLM :: "world \<Rightarrow> ChatLLM" where
  "chatLLM w = WatsonXChatLLM (remote w) messagesToPrompt"

definition customAgent :: "world \<Rightarrow> CustomGermanAgent" where
  "customAgent w =
     CustomGermanAgent_new (default_maxRetries w) \<lparr>llm = chatLLM w, memory = []\<rparr>"

definition script1_message :: message where
  "script1_message =
     BaseMessage_of
       \<lparr>role = Role_USER, msg_text = ''What is your name and why is the sky blue?''\<rparr>"

definition script1_try :: "world \<Rightarrow> process \<Rightarrow> (error + unit) \<times> process" where
  "script1_try w p =
     (let p1 = emit [ConsoleInfo (''Message:\<newline>'' @ msg_text script1_message @ ''\<newline>'')] p;
          r = fst (BaseAgent_run (customAgent w) \<lparr>RunInput.message = script1_message\<rparr> None);
          p2 = emit (concat (map (observer w) (events w))) p1
      in case r of
           Inl error \<Rightarrow> (Inl error, p2)
         | Inr response \<Rightarrow>
             (Inr (), emit [ReaderWrite agent_prefix (msg_text (RunOutput.message response))] p2))"

definition script1 :: "world \<Rightarrow> process" where
  "script1 w =
     process_exit 0
       (try_catch (script1_try w)
          (\<lambda>error. emit [LoggerError (FrameworkError_dump w error)])
          init_process)"

subsection \<open>Script 2: the framework's agent with tools\<close>

definition script2_try :: "world \<Rightarrow> process \<Rightarrow> (error + unit) \<times> process" where
  "script2_try w p =
     (case getPrompt w ''What is the current weather in Las Vegas?'' of
        Inl error \<Rightarrow> (Inl error, p)
      | Inr prompt \<Rightarrow>
          (let p1 = emit [ConsoleInfo (''User '' @ bust @ '' : '' @ prompt)] p
           in case BeeAgent_run w prompt
                     \<lparr>maxIterations = 8, maxRetriesPerStep = 3, totalMaxRetries = 10\<rparr> of
                Inl error \<Rightarrow> (Inl error, p1)
              | Inr result_text \<Rightarrow> (Inr (), emit [ConsoleInfo (agent_prefix @ result_text)] p1)))"

definition script2 :: "world \<Rightarrow> process" where
  "script2 w =
     try_catch (script2_try w)
       (\<lambda>error. emit [ConsoleError (FrameworkError_dump w error)])
       init_process"


subsection \<open>The modules as wholes\<close>

text \<open>
  \<open>script1\<close> and \<open>script2\<close> are the try statements of the two modules.  The statements
  before them run at the top level of the module, outside any handler: the imports, and
  the calls that build the model, the templates, the agent, the logger and the reader.
  Each is a call into code outside the scripts and may throw; \<open>throws c\<close> is the error
  the call \<open>c\<close> throws, if it throws.  The calls are listed in the order in which they
  are evaluated.
\<close>

definition script1_setup :: "string list" where
  "script1_setup =
     [''import'',
      ''new PromptTemplate (systemPrompt)'',
      ''new WatsonXLLM'',
      ''new PromptTemplate (template)'',
      ''new WatsonXChatLLM'',
      ''new UnconstrainedMemory'',
      ''new CustomGermanAgent'',
      ''new Logger'',
      ''createConsoleReader'']"

definition script2_setup :: "string list" where
  "script2_setup =
     [''import'',
      ''getChatLLM'',
      ''new TokenMemory'',
      ''new OpenMeteoTool'',
      ''new WikipediaTool'',
      ''new BeeAgent'']"

fun first_throw :: "(string \<Rightarrow> error option) \<Rightarrow> string list \<Rightarrow> error option" where
  "first_throw throws [] = None"
| "first_throw throws (c # cs) =
     (case throws c of Some e \<Rightarrow> Some e | None \<Rightarrow> first_throw throws cs)"

text \<open>
  A module ends when its last statement is done or \<^verbatim>\<open>process.exit\<close> is called, or it is
  ended by an error that nothing catches.  In the second case the runtime ends the
  process with status 1.
\<close>

datatype ending = Ended process | Uncaught error

definition run_script1 :: "(string \<Rightarrow> error option) \<Rightarrow> world \<Rightarrow> ending" where
  "run_script1 throws w =
     (case first_throw throws script1_setup of
        Some e \<Rightarrow> Uncaught e
      | None \<Rightarrow> Ended (script1 w))"

definition run_script2 :: "(string \<Rightarrow> error option) \<Rightarrow> world \<Rightarrow> ending" where
  "run_script2 throws w =
     (case first_throw throws script2_setup of
        Some e \<Rightarrow> Uncaught e
      | None \<Rightarrow> Ended (script2 w))"

fun node_status :: "ending \<Rightarrow> nat" where
  "node_status (Ended p) = exit_status p"
| "node_status (Uncaught e) = 1"

text \<open>The exit code the script itself has set, if it has set one.\<close>

fun script_exit_code :: "ending \<Rightarrow> nat option" where
  "script_exit_code (Ended p) = exit_code p"
| "script_exit_code (Uncaught e) = None"

text \<open>A set-up in which no call throws, and one in which \<^verbatim>\<open>getChatLLM\<close> throws.\<close>

definition setup_completes :: "string \<Rightarrow> error option" where
  "setup_completes c = None"

definition getChatLLM_throws :: "string \<Rightarrow> error option" where
  "getChatLLM_throws c =
     (if c = ''getChatLLM'' then Some (OtherError ''Provider not found.'') else None)"

subsection \<open>Reading what was written\<close>

text \<open>The lines of the logger and of \<^verbatim>\<open>console.error\<close>.\<close>

fun is_LoggerError :: "output_line \<Rightarrow> bool" where
  "is_LoggerError (LoggerError s) = True"
| "is_LoggerError l = False"

fun is_ConsoleError :: "output_line \<Rightarrow> bool" where
  "is_ConsoleError (ConsoleError s) = True"
| "is_ConsoleError l = False"

text \<open>
  Two worlds to run the scripts in: one whose model answers, one whose requests fail.
\<close>

definition answering_world :: world where
  "answering_world =
     \<lparr>ensure = (\<lambda>e. e),
      dump = (\<lambda>e. case e of LLMFailure s \<Rightarrow> s | _ \<Rightarrow> ''error''),
      remote = (\<lambda>prompt i.
         Json (JObj [(''thought'', JStr ''t''), (''final_answer'', JStr ''Ich bin Thomas.'')])),
      default_maxRetries = 0,
      events = [AgentStart],
      getPrompt = (\<lambda>fallback. Inr fallback),
      BeeAgent_run = (\<lambda>prompt ex. Inr ''Sunny'')\<rparr>"

definition failing_world :: world where
  "failing_world =
     \<lparr>ensure = (\<lambda>e. e),
      dump = (\<lambda>e. case e of LLMFailure s \<Rightarrow> s | _ \<Rightarrow> ''error''),
      remote = (\<lambda>prompt i. Failed (LLMFailure ''timeout'')),
      default_maxRetries = 0,
      events = [AgentStart, AgentError (LLMFailure ''timeout'')],
      getPrompt = (\<lambda>fallback. Inr fallback),
      BeeAgent_run = (\<lambda>prompt ex. Inl (LLMFailure ''timeout''))\<rparr>"


section \<open>Properties of \<open>_run\<close>\<close>

text \<open>
  Claim C8.  A successful run appends exactly one message to the agent's memory, the
  assistant message carrying the parsed \<open>final_answer\<close>; the user's input message is
  not stored; a run whose driver call fails leaves the agent, and so the memory, as
  it was.
\<close>

theorem run_memory_effect:
  assumes "CustomGermanAgent_run this input opts run = (r, this')"
  shows "case r of
           Inl e \<Rightarrow> this' = this
         | Inr out \<Rightarrow>
             this' = this\<lparr>memory := memory this @
                       [\<lparr>role = ''assistant'', msg_text = final_answer (state out)\<rparr>]\<rparr>"
  using assms
  by (auto simp: CustomGermanAgent_run_def BaseMessage_of_def memory_add_def
      Role_ASSISTANT_def Let_def split: sum.splits)

theorem run_memory_effect_witness:
  "(let this = \<lparr>driver = (\<lambda>sch msgs go.
                   Inr \<lparr>raw = JNull, parsed = \<lparr>thought = ''t'', final_answer = ''Blau''\<rparr>\<rparr>),
                memory = [\<lparr>role = ''user'', msg_text = ''Hallo''\<rparr>]\<rparr>;
        input = \<lparr>RunInput.message = \<lparr>role = ''user'', msg_text = ''Warum?''\<rparr>\<rparr>
    in memory (snd (CustomGermanAgent_run this input None \<lparr>RunContext.signal = AbortSignal False\<rparr>))
       = [\<lparr>role = ''user'', msg_text = ''Hallo''\<rparr>,
          \<lparr>role = ''assistant'', msg_text = ''Blau''\<rparr>])
   \<and> (let this = \<lparr>driver = (\<lambda>sch msgs go. Inl ParseFailure),
                  memory = [\<lparr>role = ''user'', msg_text = ''Hallo''\<rparr>]\<rparr>;
          input = \<lparr>RunInput.message = \<lparr>role = ''user'', msg_text = ''Warum?''\<rparr>\<rparr>
      in memory (snd (CustomGermanAgent_run this input None \<lparr>RunContext.signal = AbortSignal False\<rparr>))
         = [\<lparr>role = ''user'', msg_text = ''Hallo''\<rparr>])"
proof -
  let ?ok = "\<lparr>driver = (\<lambda>sch msgs go.
                   Inr \<lparr>raw = JNull, parsed = \<lparr>thought = ''t'', final_answer = ''Blau''\<rparr>\<rparr>),
              memory = [\<lparr>role = ''user'', msg_text = ''Hallo''\<rparr>]\<rparr>"
  let ?bad = "\<lparr>driver = (\<lambda>sch msgs go. Inl ParseFailure),
               memory = [\<lparr>role = ''user'', msg_text = ''Hallo''\<rparr>]\<rparr>"
  let ?input = "\<lparr>RunInput.message = \<lparr>role = ''user'', msg_text = ''Warum?''\<rparr>\<rparr>"
  let ?ctx = "\<lparr>RunContext.signal = AbortSignal False\<rparr>"
  have ok: "fst (CustomGermanAgent_run ?ok ?input None ?ctx)
              = Inr \<lparr>RunOutput.message = \<lparr>role = ''assistant'', msg_text = ''Blau''\<rparr>,
                     state = \<lparr>thought = ''t'', final_answer = ''Blau''\<rparr>\<rparr>"
    by (simp add: CustomGermanAgent_run_def BaseMessage_of_def Role_ASSISTANT_def Let_def)
  have bad: "fst (CustomGermanAgent_run ?bad ?input None ?ctx) = Inl ParseFailure"
    by (simp add: CustomGermanAgent_run_def)
  from run_memory_effect [OF surjective_pairing, of ?ok ?input None ?ctx]
       run_memory_effect [OF surjective_pairing, of ?bad ?input None ?ctx]
  show ?thesis
    unfolding ok bad by (simp add: Let_def)
qed

text \<open>
  Claim C9.  On a successful run the returned message has the assistant role, its text
  is \<open>final_answer\<close> of the returned state, and the returned state is the object the
  driver handed back as \<open>parsed\<close>.
\<close>

theorem run_output_shape:
  assumes "CustomGermanAgent_run this input opts run = (Inr out, this')"
  shows "role (RunOutput.message out) = ''assistant''
       \<and> msg_text (RunOutput.message out) = final_answer (state out)
       \<and> (\<exists>resp. driver this response_schema (memory this @ [RunInput.message input])
                      (generate_options opts run) = Inr resp
                  \<and> state out = parsed resp)"
  using assms
  by (auto simp: CustomGermanAgent_run_def BaseMessage_of_def Role_ASSISTANT_def Let_def
      split: sum.splits)

theorem run_output_shape_witness:
  "(let this = \<lparr>driver = (\<lambda>sch msgs go.
                   Inr \<lparr>raw = JNull, parsed = \<lparr>thought = ''t'', final_answer = ''Blau''\<rparr>\<rparr>),
                memory = []\<rparr>;
        input = \<lparr>RunInput.message = \<lparr>role = ''user'', msg_text = ''Warum?''\<rparr>\<rparr>;
        out = \<lparr>RunOutput.message = \<lparr>role = ''assistant'', msg_text = ''Blau''\<rparr>,
               state = \<lparr>thought = ''t'', final_answer = ''Blau''\<rparr>\<rparr>
    in fst (CustomGermanAgent_run this input None \<lparr>RunContext.signal = AbortSignal False\<rparr>)
         = Inr out
       \<and> role (RunOutput.message out) = ''assistant''
       \<and> msg_text (RunOutput.message out) = final_answer (state out))"
proof -
  let ?this = "\<lparr>driver = (\<lambda>sch msgs go.
                   Inr \<lparr>raw = JNull, parsed = \<lparr>thought = ''t'', final_answer = ''Blau''\<rparr>\<rparr>),
                memory = []\<rparr>"
  let ?input = "\<lparr>RunInput.message = \<lparr>role = ''user'', msg_text = ''Warum?''\<rparr>\<rparr>"
  let ?ctx = "\<lparr>RunContext.signal = AbortSignal False\<rparr>"
  let ?out = "\<lparr>RunOutput.message = \<lparr>role = ''assistant'', msg_text = ''Blau''\<rparr>,
               state = \<lparr>thought = ''t'', final_answer = ''Blau''\<rparr>\<rparr>"
  have run: "CustomGermanAgent_run ?this ?input None ?ctx
              = (Inr ?out, ?this\<lparr>memory := [\<lparr>role = ''assistant'', msg_text = ''Blau''\<rparr>]\<rparr>)"
    by (simp add: CustomGermanAgent_run_def BaseMessage_of_def Role_ASSISTANT_def
        memory_add_def Let_def)
  from run_output_shape [OF run] run show ?thesis
    by (simp add: Let_def)
qed

section \<open>Properties of the templates\<close>

lemma parse_chat_template:
  "parseTemplate (PromptTemplate.template template) =
     Some [Section ''messages'' message_tokens, Text (header ''assistant'')]"
  unfolding template_def message_tokens_def header_def by code_simp

lemma parse_systemPrompt:
  "parseTemplate (PromptTemplate.template systemPrompt) =
     Some [Text systemPrompt_before, Name ''schema'', Text systemPrompt_after]"
  unfolding systemPrompt_def systemPrompt_before_def systemPrompt_after_def by code_simp

lemma render_message_tokens:
  "renderTokens (message_lists m # ctx) message_tokens =
     (if role m \<in> {''system'', ''user'', ''assistant''} then segment m else [])"
  by (simp add: renderTokens_def message_tokens_def message_lists_def segment_def)

lemma messagesToPrompt_eq:
  "messagesToPrompt msgs =
     Inr (concat (map (\<lambda>m. if role m \<in> {''system'', ''user'', ''assistant''}
                             then segment m else []) msgs)
          @ header ''assistant'')"
proof -
  have "messagesToPrompt msgs =
          Inr (renderTokens [JObj [(''messages'', JArr (map message_lists msgs))]]
                 [Section ''messages'' message_tokens, Text (header ''assistant'')])"
    by (simp add: messagesToPrompt_def PromptTemplate_render_def parse_chat_template)
       (simp add: template_def)
  also have "renderTokens [JObj [(''messages'', JArr (map message_lists msgs))]]
                 [Section ''messages'' message_tokens, Text (header ''assistant'')]
             = concat (map (\<lambda>m. renderTokens
                     [message_lists m, JObj [(''messages'', JArr (map message_lists msgs))]]
                     message_tokens) msgs)
               @ header ''assistant''"
    by (simp add: renderTokens_def o_def)
  finally show ?thesis
    by (simp add: render_message_tokens)
qed

text \<open>
  Claim C3.  For messages whose roles are system, user or assistant, the prompt is the
  segments of the messages in their order, each made of the role's header, the text and
  the end token, the system segment led by the begin-of-text token, and after them the
  assistant header.
\<close>

theorem chat_prompt_segments:
  assumes "\<forall>m \<in> set msgs. role m \<in> {''system'', ''user'', ''assistant''}"
  shows "messagesToPrompt msgs = Inr (concat (map segment msgs) @ header ''assistant'')"
proof -
  have eq: "map (\<lambda>m. if role m \<in> {''system'', ''user'', ''assistant''}
                         then segment m else []) msgs
          = map segment msgs"
    using assms by (intro map_cong) auto
  show ?thesis
    unfolding messagesToPrompt_eq eq by (rule refl)
qed

theorem chat_prompt_segments_witness:
  "messagesToPrompt
     [\<lparr>role = ''system'', msg_text = ''Be brief.''\<rparr>,
      \<lparr>role = ''user'', msg_text = ''Hi''\<rparr>,
      \<lparr>role = ''assistant'', msg_text = ''Hallo''\<rparr>]
   = Inr (''<|begin_of_text|><|start_header_id|>system<|end_header_id|>\<newline>  \<newline>  Be brief.<|eot_id|>'' @
          ''<|start_header_id|>user<|end_header_id|>\<newline>  \<newline>  Hi<|eot_id|>'' @
          ''<|start_header_id|>assistant<|end_header_id|>\<newline>  \<newline>  Hallo<|eot_id|>'' @
          ''<|start_header_id|>assistant<|end_header_id|>\<newline>  \<newline>  '')"
  using chat_prompt_segments
    [of "[\<lparr>role = ''system'', msg_text = ''Be brief.''\<rparr>,
          \<lparr>role = ''user'', msg_text = ''Hi''\<rparr>,
          \<lparr>role = ''assistant'', msg_text = ''Hallo''\<rparr>]"]
  by (simp add: segment_def header_def)

text \<open>
  Claim C2.  For a non-empty schema string the system prompt renders to the text before
  the placeholder, the string itself, and the text after the placeholder; the
  placeholder sits between the two code fences.
\<close>

theorem systemPrompt_render:
  assumes "s \<noteq> []"
  shows "PromptTemplate_render systemPrompt (JObj [(''schema'', JStr s)])
           = Inr (systemPrompt_before @ s @ systemPrompt_after)
       \<and> PromptTemplate.template systemPrompt
           = systemPrompt_before @ ''{{schema}}'' @ systemPrompt_after
       \<and> drop (length systemPrompt_before - 4) systemPrompt_before = ''```\<newline>''
       \<and> take 4 systemPrompt_after = ''\<newline>```''"
proof -
  have valid: "validateInput (schema systemPrompt) (JObj [(''schema'', JStr s)])"
    using assms by (cases s) (simp_all add: systemPrompt_def)
  have "PromptTemplate_render systemPrompt (JObj [(''schema'', JStr s)])
           = Inr (systemPrompt_before @ s @ systemPrompt_after)"
    by (simp add: PromptTemplate_render_def valid parse_systemPrompt renderTokens_def)
  moreover have "PromptTemplate.template systemPrompt
           = systemPrompt_before @ ''{{schema}}'' @ systemPrompt_after"
    by (simp add: systemPrompt_def)
  moreover have "drop (length systemPrompt_before - 4) systemPrompt_before = ''```\<newline>''"
    by (simp add: systemPrompt_before_def)
  moreover have "take 4 systemPrompt_after = ''\<newline>```''"
    by (simp add: systemPrompt_after_def)
  ultimately show ?thesis by blast
qed

theorem systemPrompt_render_witness:
  "PromptTemplate_render systemPrompt (JObj [(''schema'', JStr ''{\"type\":\"object\"} <b> {{x}}'')])
     = Inr (systemPrompt_before @ ''{\"type\":\"object\"} <b> {{x}}'' @ systemPrompt_after)"
  using systemPrompt_render [of "''{\"type\":\"object\"} <b> {{x}}''"] by simp


text \<open>
  Claim C10.  A message with one of the three roles maps to a record in which the list
  of that role holds the text and the other two lists are empty; a message with any
  other role maps to three empty lists and adds nothing to the prompt.
\<close>

theorem message_lists_by_role:
  "(role m = ''system'' \<longrightarrow>
      message_lists m =
        JObj [(''system'', JArr [JStr (msg_text m)]), (''user'', JArr []), (''assistant'', JArr [])])
   \<and> (role m = ''user'' \<longrightarrow>
      message_lists m =
        JObj [(''system'', JArr []), (''user'', JArr [JStr (msg_text m)]), (''assistant'', JArr [])])
   \<and> (role m = ''assistant'' \<longrightarrow>
      message_lists m =
        JObj [(''system'', JArr []), (''user'', JArr []), (''assistant'', JArr [JStr (msg_text m)])])
   \<and> (role m \<notin> {''system'', ''user'', ''assistant''} \<longrightarrow>
      message_lists m = JObj [(''system'', JArr []), (''user'', JArr []), (''assistant'', JArr [])]
      \<and> messagesToPrompt (xs @ m # ys) = messagesToPrompt (xs @ ys))"
  by (simp add: message_lists_def messagesToPrompt_eq)

theorem message_lists_by_role_witness:
  "message_lists \<lparr>role = ''system'', msg_text = ''a''\<rparr> =
     JObj [(''system'', JArr [JStr ''a'']), (''user'', JArr []), (''assistant'', JArr [])]
   \<and> message_lists \<lparr>role = ''user'', msg_text = ''b''\<rparr> =
     JObj [(''system'', JArr []), (''user'', JArr [JStr ''b'']), (''assistant'', JArr [])]
   \<and> message_lists \<lparr>role = ''assistant'', msg_text = ''c''\<rparr> =
     JObj [(''system'', JArr []), (''user'', JArr []), (''assistant'', JArr [JStr ''c''])]
   \<and> message_lists \<lparr>role = ''tool'', msg_text = ''d''\<rparr> =
     JObj [(''system'', JArr []), (''user'', JArr []), (''assistant'', JArr [])]
   \<and> messagesToPrompt
         [\<lparr>role = ''user'', msg_text = ''b''\<rparr>, \<lparr>role = ''tool'', msg_text = ''d''\<rparr>]
       = messagesToPrompt [\<lparr>role = ''user'', msg_text = ''b''\<rparr>]
   \<and> messagesToPrompt [\<lparr>role = ''user'', msg_text = ''b''\<rparr>]
       = Inr (''<|start_header_id|>user<|end_header_id|>\<newline>  \<newline>  b<|eot_id|>'' @
              ''<|start_header_id|>assistant<|end_header_id|>\<newline>  \<newline>  '')"
proof -
  have user: "messagesToPrompt [\<lparr>role = ''user'', msg_text = ''b''\<rparr>]
       = Inr (''<|start_header_id|>user<|end_header_id|>\<newline>  \<newline>  b<|eot_id|>'' @
              ''<|start_header_id|>assistant<|end_header_id|>\<newline>  \<newline>  '')"
    by (simp add: messagesToPrompt_eq segment_def header_def)
  from message_lists_by_role [of "\<lparr>role = ''system'', msg_text = ''a''\<rparr>"]
       message_lists_by_role [of "\<lparr>role = ''user'', msg_text = ''b''\<rparr>"]
       message_lists_by_role [of "\<lparr>role = ''assistant'', msg_text = ''c''\<rparr>"]
       message_lists_by_role [of "\<lparr>role = ''tool'', msg_text = ''d''\<rparr>"
                                "[\<lparr>role = ''user'', msg_text = ''b''\<rparr>]" "[]"]
       user
  show ?thesis by simp
qed

section \<open>Properties of the response schema and the driver\<close>

lemma zparse_response_schema:
  "zparse response_schema v = Some p \<longleftrightarrow>
     (\<exists>kvs t a. v = JObj kvs
        \<and> map_of kvs ''thought'' = Some (JStr t)
        \<and> map_of kvs ''final_answer'' = Some (JStr a)
        \<and> p = JObj [(''thought'', JStr t), (''final_answer'', JStr a)])"
  by (auto simp: response_schema_def split: json.splits option.splits)

lemma parse_reply_response_schema:
  "parse_reply response_schema r = Inr resp \<longleftrightarrow>
     (\<exists>kvs t a. r = Json (JObj kvs)
        \<and> map_of kvs ''thought'' = Some (JStr t)
        \<and> map_of kvs ''final_answer'' = Some (JStr a)
        \<and> resp = \<lparr>raw = JObj kvs, parsed = \<lparr>thought = t, final_answer = a\<rparr>\<rparr>)"
proof (cases r)
  case (Json v)
  show ?thesis
  proof (cases "zparse response_schema v")
    case None
    with Json show ?thesis
      using zparse_response_schema [of v] by (auto simp: parse_reply_def)
  next
    case (Some p)
    then obtain kvs t a where v: "v = JObj kvs"
      and t: "map_of kvs ''thought'' = Some (JStr t)"
      and a: "map_of kvs ''final_answer'' = Some (JStr a)"
      and p: "p = JObj [(''thought'', JStr t), (''final_answer'', JStr a)]"
      using zparse_response_schema [of v p] by blast
    have "parse_reply response_schema r
            = Inr \<lparr>raw = JObj kvs, parsed = \<lparr>thought = t, final_answer = a\<rparr>\<rparr>"
      using Json Some by (simp add: parse_reply_def p v state_of_json_def)
    with Json v t a show ?thesis by auto
  qed
qed (simp_all add: parse_reply_def)

subsection \<open>The retry loop\<close>

lemma attempt_requests:
  "i < snd (JsonDriver_attempt chat sch input i k)
   \<and> snd (JsonDriver_attempt chat sch input i k) \<le> Suc (i + k)"
proof (induction k arbitrary: i)
  case 0
  show ?case by simp
next
  case (Suc k)
  from Suc.IH [of "Suc i"] show ?case by auto
qed

lemma attempt_success:
  "fst (JsonDriver_attempt chat sch input i k) = Inr resp \<Longrightarrow>
   \<exists>j. i \<le> j \<and> j \<le> i + k \<and> parse_reply sch (chat input j) = Inr resp
       \<and> snd (JsonDriver_attempt chat sch input i k) = Suc j"
proof (induction k arbitrary: i)
  case 0
  then show ?case by auto
next
  case (Suc k)
  show ?case
  proof (cases "parse_reply sch (chat input i) = Inl ParseFailure")
    case True
    with Suc.prems have "fst (JsonDriver_attempt chat sch input (Suc i) k) = Inr resp"
      by simp
    from Suc.IH [OF this] obtain j where "Suc i \<le> j" "j \<le> Suc i + k"
      "parse_reply sch (chat input j) = Inr resp"
      "snd (JsonDriver_attempt chat sch input (Suc i) k) = Suc j"
      by blast
    with True show ?thesis
      by (intro exI [of _ j]) simp
  next
    case False
    with Suc.prems show ?thesis
      by (intro exI [of _ i]) simp
  qed
qed

lemma attempt_exhausted:
  "fst (JsonDriver_attempt chat sch input i k) = Inl ParseFailure \<Longrightarrow>
   snd (JsonDriver_attempt chat sch input i k) = Suc (i + k)
   \<and> (\<forall>j. i \<le> j \<and> j \<le> i + k \<longrightarrow> parse_reply sch (chat input j) = Inl ParseFailure)"
proof (induction k arbitrary: i)
  case 0
  then show ?case by auto
next
  case (Suc k)
  show ?case
  proof (cases "parse_reply sch (chat input i) = Inl ParseFailure")
    case True
    with Suc.prems have "fst (JsonDriver_attempt chat sch input (Suc i) k) = Inl ParseFailure"
      by simp
    from Suc.IH [OF this]
    have cnt: "snd (JsonDriver_attempt chat sch input (Suc i) k) = Suc (Suc i + k)"
      and rest: "\<And>j. Suc i \<le> j \<Longrightarrow> j \<le> Suc i + k \<Longrightarrow>
                   parse_reply sch (chat input j) = Inl ParseFailure"
      by auto
    have "parse_reply sch (chat input j) = Inl ParseFailure"
      if "i \<le> j" "j \<le> i + Suc k" for j
      using that True rest [of j] by (cases "j = i") auto
    with cnt True show ?thesis by simp
  next
    case False
    with Suc.prems show ?thesis by simp
  qed
qed


lemma new_agent_run:
  "CustomGermanAgent_run (CustomGermanAgent_new dflt \<lparr>llm = chat, memory = mem\<rparr>) input opts run
     = (case fst (JsonDriver_attempt chat response_schema (mem @ [RunInput.message input]) 0
                    (retry_bound dflt (generate_options opts run))) of
          Inl e \<Rightarrow> (Inl e, CustomGermanAgent_new dflt \<lparr>llm = chat, memory = mem\<rparr>)
        | Inr response \<Rightarrow>
            (Inr \<lparr>RunOutput.message =
                    \<lparr>role = ''assistant'', msg_text = final_answer (parsed response)\<rparr>,
                  state = parsed response\<rparr>,
             (CustomGermanAgent_new dflt \<lparr>llm = chat, memory = mem\<rparr>)
               \<lparr>memory := mem @
                  [\<lparr>role = ''assistant'', msg_text = final_answer (parsed response)\<rparr>]\<rparr>))"
  by (simp add: CustomGermanAgent_run_def CustomGermanAgent_new_def JsonDriver_fromTemplate_def
      JsonDriver_generate_def BaseMessage_of_def Role_ASSISTANT_def memory_add_def Let_def
      split: sum.splits)



text \<open>
  Claim C7.  When the run options give \<^verbatim>\<open>maxRetries = n\<close>, that number is the bound
  \<^verbatim>\<open>_run\<close> hands to the driver; the driver sends at most \<open>n + 1\<close> requests, that is at
  most \<open>n\<close> retries; a run that fails on a parse failure has used all of them, every
  answer having failed to parse; and the state of a successful run is the parsed
  result of the answer that ended the call, which matches the response schema.
\<close>

theorem run_retry_bound:
  assumes "opts = Some os" and "RunOptions.maxRetries os = Some n"
  shows "GenerateOptions.maxRetries (generate_options opts run) = Some n
   \<and> JsonDriver_requests dflt chat response_schema (mem @ [RunInput.message input])
        (generate_options opts run) \<le> Suc n
   \<and> (fst (CustomGermanAgent_run (CustomGermanAgent_new dflt \<lparr>llm = chat, memory = mem\<rparr>)
              input opts run) = Inl ParseFailure \<longrightarrow>
        JsonDriver_requests dflt chat response_schema (mem @ [RunInput.message input])
          (generate_options opts run) = Suc n
        \<and> (\<forall>i\<le>n. parse_reply response_schema (chat (mem @ [RunInput.message input]) i)
                     = Inl ParseFailure))
   \<and> (fst (CustomGermanAgent_run (CustomGermanAgent_new dflt \<lparr>llm = chat, memory = mem\<rparr>)
              input opts run) = Inr out \<longrightarrow>
        (\<exists>i\<le>n. \<exists>v.
            chat (mem @ [RunInput.message input]) i = Json v
          \<and> zparse response_schema v =
              Some (JObj [(''thought'', JStr (thought (state out))),
                          (''final_answer'', JStr (final_answer (state out)))])
          \<and> JsonDriver_requests dflt chat response_schema (mem @ [RunInput.message input])
               (generate_options opts run) = Suc i))"
proof -
  let ?msgs = "mem @ [RunInput.message input]"
  let ?go = "generate_options opts run"
  let ?run = "fst (CustomGermanAgent_run (CustomGermanAgent_new dflt \<lparr>llm = chat, memory = mem\<rparr>)
              input opts run)"
  have bound: "GenerateOptions.maxRetries ?go = Some n"
    using assms by (simp add: generate_options_def)
  then have k: "retry_bound dflt ?go = n"
    by (simp add: retry_bound_def)
  have req: "JsonDriver_requests dflt chat response_schema ?msgs ?go
               = snd (JsonDriver_attempt chat response_schema ?msgs 0 n)"
    by (simp add: JsonDriver_requests_def k)
  have le: "JsonDriver_requests dflt chat response_schema ?msgs ?go \<le> Suc n"
    using attempt_requests [of 0 chat response_schema ?msgs n] by (simp add: req)
  have failure: "JsonDriver_requests dflt chat response_schema ?msgs ?go = Suc n
        \<and> (\<forall>i\<le>n. parse_reply response_schema (chat ?msgs i) = Inl ParseFailure)"
    if "?run = Inl ParseFailure"
  proof -
    from that have "fst (JsonDriver_attempt chat response_schema ?msgs 0 n) = Inl ParseFailure"
      by (auto simp: new_agent_run k split: sum.splits)
    from attempt_exhausted [OF this] show ?thesis
      by (simp add: req)
  qed
  have success: "\<exists>i\<le>n. \<exists>v.
            chat ?msgs i = Json v
          \<and> zparse response_schema v =
              Some (JObj [(''thought'', JStr (thought (state out))),
                          (''final_answer'', JStr (final_answer (state out)))])
          \<and> JsonDriver_requests dflt chat response_schema ?msgs ?go = Suc i"
    if "?run = Inr out"
  proof -
    from that obtain resp where
      resp: "fst (JsonDriver_attempt chat response_schema ?msgs 0 n) = Inr resp"
      and out: "state out = parsed resp"
      by (auto simp: new_agent_run k split: sum.splits)
    from attempt_success [OF resp] obtain j where j: "j \<le> n"
      and parse: "parse_reply response_schema (chat ?msgs j) = Inr resp"
      and cnt: "snd (JsonDriver_attempt chat response_schema ?msgs 0 n) = Suc j"
      by auto
    from parse obtain kvs t a where reply: "chat ?msgs j = Json (JObj kvs)"
      and t: "map_of kvs ''thought'' = Some (JStr t)"
      and a: "map_of kvs ''final_answer'' = Some (JStr a)"
      and r: "resp = \<lparr>raw = JObj kvs, parsed = \<lparr>thought = t, final_answer = a\<rparr>\<rparr>"
      unfolding parse_reply_response_schema by blast
    have "zparse response_schema (JObj kvs) =
            Some (JObj [(''thought'', JStr t), (''final_answer'', JStr a)])"
      using t a by (simp add: zparse_response_schema)
    with j reply cnt out r show ?thesis
      by (intro exI [of _ j] conjI exI [of _ "JObj kvs"]) (simp_all add: req)
  qed
  from bound le failure success show ?thesis by blast
qed



theorem run_retry_bound_witness:
  "fst (CustomGermanAgent_run
          (CustomGermanAgent_new 7
             \<lparr>llm = (\<lambda>msgs i.
                       if i = 0 then Unparsable ''Sure, here is the answer''
                       else Json (JObj [(''thought'', JStr ''t''),
                                        (''final_answer'', JStr ''Blau'')])),
              memory = []\<rparr>)
          \<lparr>RunInput.message = \<lparr>role = ''user'', msg_text = ''Warum?''\<rparr>\<rparr>
          (Some \<lparr>RunOptions.maxRetries = Some 1\<rparr>)
          \<lparr>RunContext.signal = AbortSignal False\<rparr>)
     = Inr \<lparr>RunOutput.message = \<lparr>role = ''assistant'', msg_text = ''Blau''\<rparr>,
            state = \<lparr>thought = ''t'', final_answer = ''Blau''\<rparr>\<rparr>
   \<and> JsonDriver_requests 7
         (\<lambda>msgs i.
             if i = 0 then Unparsable ''Sure, here is the answer''
             else Json (JObj [(''thought'', JStr ''t''), (''final_answer'', JStr ''Blau'')]))
         response_schema [\<lparr>role = ''user'', msg_text = ''Warum?''\<rparr>]
         (generate_options (Some \<lparr>RunOptions.maxRetries = Some 1\<rparr>)
            \<lparr>RunContext.signal = AbortSignal False\<rparr>) \<le> 2
   \<and> fst (CustomGermanAgent_run
          (CustomGermanAgent_new 7 \<lparr>llm = (\<lambda>msgs i. Unparsable ''no''), memory = []\<rparr>)
          \<lparr>RunInput.message = \<lparr>role = ''user'', msg_text = ''Warum?''\<rparr>\<rparr>
          (Some \<lparr>RunOptions.maxRetries = Some 2\<rparr>)
          \<lparr>RunContext.signal = AbortSignal False\<rparr>)
     = Inl ParseFailure
   \<and> JsonDriver_requests 7 (\<lambda>msgs i. Unparsable ''no'')
         response_schema [\<lparr>role = ''user'', msg_text = ''Warum?''\<rparr>]
         (generate_options (Some \<lparr>RunOptions.maxRetries = Some 2\<rparr>)
            \<lparr>RunContext.signal = AbortSignal False\<rparr>) = 3"
proof -
  let ?flaky = "\<lambda>(msgs :: message list) (i :: nat).
                       if i = 0 then Unparsable ''Sure, here is the answer''
                       else Json (JObj [(''thought'', JStr ''t''),
                                        (''final_answer'', JStr ''Blau'')])"
  let ?never = "\<lambda>(msgs :: message list) (i :: nat). Unparsable ''no''"
  let ?input = "\<lparr>RunInput.message = \<lparr>role = ''user'', msg_text = ''Warum?''\<rparr>\<rparr>"
  let ?ctx = "\<lparr>RunContext.signal = AbortSignal False\<rparr>"
  let ?out = "\<lparr>RunOutput.message = \<lparr>role = ''assistant'', msg_text = ''Blau''\<rparr>,
            state = \<lparr>thought = ''t'', final_answer = ''Blau''\<rparr>\<rparr>"
  have ok: "fst (CustomGermanAgent_run
               (CustomGermanAgent_new 7 \<lparr>llm = ?flaky, memory = []\<rparr>) ?input
               (Some \<lparr>RunOptions.maxRetries = Some 1\<rparr>) ?ctx) = Inr ?out"
    by (simp add: new_agent_run retry_bound_def generate_options_def parse_reply_def
        response_schema_def state_of_json_def)
  have bad: "fst (CustomGermanAgent_run
               (CustomGermanAgent_new 7 \<lparr>llm = ?never, memory = []\<rparr>) ?input
               (Some \<lparr>RunOptions.maxRetries = Some 2\<rparr>) ?ctx) = Inl ParseFailure"
    by (simp add: new_agent_run retry_bound_def generate_options_def parse_reply_def
        numeral_2_eq_2)
  from run_retry_bound [of "Some \<lparr>RunOptions.maxRetries = Some 1\<rparr>"
      "\<lparr>RunOptions.maxRetries = Some 1\<rparr>" 1 ?ctx 7 ?flaky "[]" ?input ?out]
  have le: "JsonDriver_requests 7 ?flaky response_schema ([] @ [RunInput.message ?input])
              (generate_options (Some \<lparr>RunOptions.maxRetries = Some 1\<rparr>) ?ctx) \<le> Suc 1"
    by simp
  from run_retry_bound [of "Some \<lparr>RunOptions.maxRetries = Some 2\<rparr>"
      "\<lparr>RunOptions.maxRetries = Some 2\<rparr>" 2 ?ctx 7 ?never "[]" ?input ?out] bad
  have cnt: "JsonDriver_requests 7 ?never response_schema ([] @ [RunInput.message ?input])
              (generate_options (Some \<lparr>RunOptions.maxRetries = Some 2\<rparr>) ?ctx) = Suc 2"
    by simp
  from ok bad le cnt show ?thesis by simp
qed


section \<open>Properties of the scripts\<close>

lemma observer_no_LoggerError: "filter is_LoggerError (observer w ev) = []"
  by (cases ev) simp_all

lemma observers_no_LoggerError:
  "filter is_LoggerError (concat (map (observer w) evs)) = []"
  by (induction evs) (simp_all add: observer_no_LoggerError)

lemma script1_written:
  "script1 w =
     \<lparr>written =
        ConsoleInfo (''Message:\<newline>'' @ msg_text script1_message @ ''\<newline>'')
        # concat (map (observer w) (events w))
        @ [case fst (BaseAgent_run (customAgent w) \<lparr>RunInput.message = script1_message\<rparr> None) of
             Inl e \<Rightarrow> LoggerError (FrameworkError_dump w e)
           | Inr response \<Rightarrow> ReaderWrite agent_prefix (msg_text (RunOutput.message response))],
      exit_code = Some 0\<rparr>"
  by (simp add: script1_def script1_try_def try_catch_def emit_def process_exit_def
      init_process_def Let_def split: sum.splits)

lemma script2_written:
  "script2 w =
     \<lparr>written =
        (case getPrompt w ''What is the current weather in Las Vegas?'' of
           Inl e \<Rightarrow> [ConsoleError (FrameworkError_dump w e)]
         | Inr prompt \<Rightarrow>
             [ConsoleInfo (''User '' @ bust @ '' : '' @ prompt),
              case BeeAgent_run w prompt
                     \<lparr>maxIterations = 8, maxRetriesPerStep = 3, totalMaxRetries = 10\<rparr> of
                Inl e \<Rightarrow> ConsoleError (FrameworkError_dump w e)
              | Inr result_text \<Rightarrow> ConsoleInfo (agent_prefix @ result_text)]),
      exit_code = None\<rparr>"
  by (simp add: script2_def script2_try_def try_catch_def emit_def init_process_def Let_def
      split: sum.splits)

lemma script2_try_written:
  "filter is_ConsoleError (written (snd (script2_try w init_process))) = []"
  by (simp add: script2_try_def emit_def init_process_def Let_def split: sum.splits)

lemma try_statements_exit_zero:
  "exit_code (script1 w) = Some 0 \<and> exit_status (script1 w) = 0
   \<and> exit_code (script2 w) = None \<and> exit_status (script2 w) = 0"
  by (simp add: script1_written script2_written exit_status_def)

text \<open>
  Claim C4, as stated, speaks of every run.  The set-up of a module runs before its try
  statement; an error thrown there is caught by nothing, and the process ends with
  status 1: here \<^verbatim>\<open>getChatLLM\<close> of script 2 throws.
\<close>

theorem uncaught_setup_error_exits_one:
  "run_script2 getChatLLM_throws answering_world = Uncaught (OtherError ''Provider not found.'')
   \<and> node_status (run_script2 getChatLLM_throws answering_world) = 1"
  by (simp add: run_script2_def script2_setup_def getChatLLM_throws_def)

text \<open>
  Claim C4, amended.  In every run whose set-up completes, the process ends with
  status 0: script 1 ends by \<^verbatim>\<open>process.exit(0)\<close> and script 2 ends without setting an exit
  code, on the success path and after a caught error alike, the caught error having
  been written to the logger or to \<^verbatim>\<open>console.error\<close>.  In no run at all does a script
  set an exit code other than 0.
\<close>

theorem scripts_exit_zero_after_setup:
  "(first_throw throws script1_setup = None \<longrightarrow>
      run_script1 throws w = Ended (script1 w)
      \<and> node_status (run_script1 throws w) = 0
      \<and> script_exit_code (run_script1 throws w) = Some 0
      \<and> (\<forall>e. fst (script1_try w init_process) = Inl e \<longrightarrow>
             last (written (script1 w)) = LoggerError (dump w (ensure w e))))
   \<and> (first_throw throws script2_setup = None \<longrightarrow>
      run_script2 throws w = Ended (script2 w)
      \<and> node_status (run_script2 throws w) = 0
      \<and> script_exit_code (run_script2 throws w) = None
      \<and> (\<forall>e. fst (script2_try w init_process) = Inl e \<longrightarrow>
             last (written (script2 w)) = ConsoleError (dump w (ensure w e))))
   \<and> (script_exit_code (run_script1 throws w) = None
        \<or> script_exit_code (run_script1 throws w) = Some 0)
   \<and> script_exit_code (run_script2 throws w) = None"
proof -
  note zero = try_statements_exit_zero [of w]
  have logged1: "last (written (script1 w)) = LoggerError (dump w (ensure w e))"
    if "fst (script1_try w init_process) = Inl e" for e
    using that
    by (simp add: script1_written FrameworkError_dump_def script1_try_def Let_def
        split: sum.splits)
  have logged2: "last (written (script2 w)) = ConsoleError (dump w (ensure w e))"
    if "fst (script2_try w init_process) = Inl e" for e
    using that
    by (auto simp: script2_written FrameworkError_dump_def script2_try_def Let_def
        split: sum.splits)
  have s1: "script_exit_code (run_script1 throws w) = None
        \<or> script_exit_code (run_script1 throws w) = Some 0"
    using zero by (simp add: run_script1_def split: option.splits)
  have s2: "script_exit_code (run_script2 throws w) = None"
    using zero by (simp add: run_script2_def split: option.splits)
  show ?thesis
    using zero logged1 logged2 s1 s2
    by (simp add: run_script1_def run_script2_def)
qed

text \<open>
  Claim C5.  When the agent run of script 1 throws, the script writes its message line
  and what the observers print, then the dump of the error to the logger, once, and
  nothing else; when the try block of script 2 throws, the script writes the dump of the
  error to \<^verbatim>\<open>console.error\<close>, once, after what it had written.  \<^verbatim>\<open>_run\<close> itself does not
  handle a failure of the driver: it passes the driver's error on and leaves the agent
  as it was.
\<close>

theorem errors_caught_once:
  "(fst (BaseAgent_run (customAgent w) \<lparr>RunInput.message = script1_message\<rparr> None) = Inl e \<longrightarrow>
      written (script1 w) =
        ConsoleInfo (''Message:\<newline>'' @ msg_text script1_message @ ''\<newline>'')
        # concat (map (observer w) (events w))
        @ [LoggerError (dump w (ensure w e))]
      \<and> filter is_LoggerError (written (script1 w)) = [LoggerError (dump w (ensure w e))])
   \<and> (fst (script2_try w init_process) = Inl e \<longrightarrow>
      written (script2 w) =
        written (snd (script2_try w init_process)) @ [ConsoleError (dump w (ensure w e))]
      \<and> filter is_ConsoleError (written (script2 w)) = [ConsoleError (dump w (ensure w e))])
   \<and> (CustomGermanAgent_run this input opts run = (Inl e, this') \<longrightarrow>
      this' = this
      \<and> driver this response_schema (memory this @ [RunInput.message input])
           (generate_options opts run) = Inl e)"
proof (intro conjI impI)
  assume "fst (BaseAgent_run (customAgent w) \<lparr>RunInput.message = script1_message\<rparr> None) = Inl e"
  then show "written (script1 w) =
        ConsoleInfo (''Message:\<newline>'' @ msg_text script1_message @ ''\<newline>'')
        # concat (map (observer w) (events w))
        @ [LoggerError (dump w (ensure w e))]"
    and "filter is_LoggerError (written (script1 w)) = [LoggerError (dump w (ensure w e))]"
    by (simp_all add: script1_written FrameworkError_dump_def observers_no_LoggerError)
next
  assume failed: "fst (script2_try w init_process) = Inl e"
  then have "script2 w =
      (snd (script2_try w init_process))
        \<lparr>written := written (snd (script2_try w init_process))
                      @ [ConsoleError (dump w (ensure w e))]\<rparr>"
    by (cases "script2_try w init_process")
       (auto simp: script2_def try_catch_def emit_def FrameworkError_dump_def script2_try_def
          init_process_def Let_def split: sum.splits)
  then show "written (script2 w) =
        written (snd (script2_try w init_process)) @ [ConsoleError (dump w (ensure w e))]"
    by simp
  then show "filter is_ConsoleError (written (script2 w)) = [ConsoleError (dump w (ensure w e))]"
    by (simp add: script2_try_written)
next
  assume "CustomGermanAgent_run this input opts run = (Inl e, this')"
  then show "this' = this"
    and "driver this response_schema (memory this @ [RunInput.message input])
           (generate_options opts run) = Inl e"
    by (auto simp: CustomGermanAgent_run_def Let_def split: sum.splits)
qed


lemma script1_answering_run:
  "fst (BaseAgent_run (customAgent answering_world) \<lparr>RunInput.message = script1_message\<rparr> None)
     = Inr \<lparr>RunOutput.message = \<lparr>role = ''assistant'', msg_text = ''Ich bin Thomas.''\<rparr>,
            state = \<lparr>thought = ''t'', final_answer = ''Ich bin Thomas.''\<rparr>\<rparr>"
  by (simp add: BaseAgent_run_def customAgent_def new_agent_run retry_bound_def
      generate_options_def chatLLM_def WatsonXChatLLM_def messagesToPrompt_eq
      answering_world_def parse_reply_def response_schema_def state_of_json_def)

lemma script1_failing_run:
  "fst (BaseAgent_run (customAgent failing_world) \<lparr>RunInput.message = script1_message\<rparr> None)
     = Inl (LLMFailure ''timeout'')"
  by (simp add: BaseAgent_run_def customAgent_def new_agent_run retry_bound_def
      generate_options_def chatLLM_def WatsonXChatLLM_def messagesToPrompt_eq
      failing_world_def parse_reply_def)

theorem scripts_exit_zero_after_setup_witness:
  "first_throw setup_completes script1_setup = None
   \<and> first_throw setup_completes script2_setup = None
   \<and> run_script1 setup_completes answering_world =
       Ended \<lparr>written =
          [ConsoleInfo ''Message:\<newline>What is your name and why is the sky blue?\<newline>'',
           ReaderWrite agent_prefix ''starting new iteration'',
           ReaderWrite agent_prefix ''Ich bin Thomas.''],
        exit_code = Some 0\<rparr>
   \<and> node_status (run_script1 setup_completes answering_world) = 0
   \<and> run_script1 setup_completes failing_world =
       Ended \<lparr>written =
          [ConsoleInfo ''Message:\<newline>What is your name and why is the sky blue?\<newline>'',
           ReaderWrite agent_prefix ''starting new iteration'',
           ReaderWrite agent_prefix ''timeout'',
           LoggerError ''timeout''],
        exit_code = Some 0\<rparr>
   \<and> node_status (run_script1 setup_completes failing_world) = 0
   \<and> run_script2 setup_completes answering_world =
       Ended \<lparr>written =
          [ConsoleInfo (''User '' @ bust @ '' : What is the current weather in Las Vegas?''),
           ConsoleInfo (agent_prefix @ ''Sunny'')],
        exit_code = None\<rparr>
   \<and> node_status (run_script2 setup_completes answering_world) = 0
   \<and> run_script2 setup_completes failing_world =
       Ended \<lparr>written =
          [ConsoleInfo (''User '' @ bust @ '' : What is the current weather in Las Vegas?''),
           ConsoleError ''timeout''],
        exit_code = None\<rparr>
   \<and> node_status (run_script2 setup_completes failing_world) = 0
   \<and> fst (script1_try failing_world init_process) = Inl (LLMFailure ''timeout'')
   \<and> last (written (script1 failing_world)) = LoggerError ''timeout''
   \<and> fst (script2_try failing_world init_process) = Inl (LLMFailure ''timeout'')
   \<and> last (written (script2 failing_world)) = ConsoleError ''timeout''"
proof -
  have c1: "first_throw setup_completes script1_setup = None"
    by (simp add: script1_setup_def setup_completes_def)
  have c2: "first_throw setup_completes script2_setup = None"
    by (simp add: script2_setup_def setup_completes_def)
  have a1: "script1 answering_world =
     \<lparr>written =
        [ConsoleInfo ''Message:\<newline>What is your name and why is the sky blue?\<newline>'',
         ReaderWrite agent_prefix ''starting new iteration'',
         ReaderWrite agent_prefix ''Ich bin Thomas.''],
      exit_code = Some 0\<rparr>"
    unfolding script1_written script1_answering_run
    by (simp add: answering_world_def script1_message_def BaseMessage_of_def)
  have f1: "script1 failing_world =
     \<lparr>written =
        [ConsoleInfo ''Message:\<newline>What is your name and why is the sky blue?\<newline>'',
         ReaderWrite agent_prefix ''starting new iteration'',
         ReaderWrite agent_prefix ''timeout'',
         LoggerError ''timeout''],
      exit_code = Some 0\<rparr>"
    unfolding script1_written script1_failing_run
    by (simp add: failing_world_def script1_message_def BaseMessage_of_def
        FrameworkError_dump_def)
  have a2: "script2 answering_world =
     \<lparr>written =
        [ConsoleInfo (''User '' @ bust @ '' : What is the current weather in Las Vegas?''),
         ConsoleInfo (agent_prefix @ ''Sunny'')],
      exit_code = None\<rparr>"
    unfolding script2_written by (simp add: answering_world_def)
  have f2: "script2 failing_world =
     \<lparr>written =
        [ConsoleInfo (''User '' @ bust @ '' : What is the current weather in Las Vegas?''),
         ConsoleError ''timeout''],
      exit_code = None\<rparr>"
    unfolding script2_written by (simp add: failing_world_def FrameworkError_dump_def)
  have t1: "fst (script1_try failing_world init_process) = Inl (LLMFailure ''timeout'')"
    using script1_failing_run by (simp add: script1_try_def Let_def)
  have t2: "fst (script2_try failing_world init_process) = Inl (LLMFailure ''timeout'')"
    by (simp add: script2_try_def failing_world_def)
  have d: "dump failing_world (ensure failing_world (LLMFailure ''timeout'')) = ''timeout''"
    by (simp add: failing_world_def)
  note ok = scripts_exit_zero_after_setup [of setup_completes answering_world]
  note bad = scripts_exit_zero_after_setup [of setup_completes failing_world]
  from ok c1 c2 have ok1: "run_script1 setup_completes answering_world = Ended (script1 answering_world)"
    and ok1s: "node_status (run_script1 setup_completes answering_world) = 0"
    and ok2: "run_script2 setup_completes answering_world = Ended (script2 answering_world)"
    and ok2s: "node_status (run_script2 setup_completes answering_world) = 0"
    by blast+
  from bad c1 c2 have bad1: "run_script1 setup_completes failing_world = Ended (script1 failing_world)"
    and bad1s: "node_status (run_script1 setup_completes failing_world) = 0"
    and bad2: "run_script2 setup_completes failing_world = Ended (script2 failing_world)"
    and bad2s: "node_status (run_script2 setup_completes failing_world) = 0"
    by blast+
  from bad c1 t1 have l1: "last (written (script1 failing_world))
      = LoggerError (dump failing_world (ensure failing_world (LLMFailure ''timeout'')))"
    by blast
  from bad c2 t2 have l2: "last (written (script2 failing_world))
      = ConsoleError (dump failing_world (ensure failing_world (LLMFailure ''timeout'')))"
    by blast
  show ?thesis
    using c1 c2 ok1 ok1s ok2 ok2s bad1 bad1s bad2 bad2s t1 t2 l1 l2
    unfolding a1 f1 a2 f2 d by simp
qed

theorem errors_caught_once_witness:
  "fst (BaseAgent_run (customAgent failing_world) \<lparr>RunInput.message = script1_message\<rparr> None)
     = Inl (LLMFailure ''timeout'')
   \<and> written (script1 failing_world) =
        [ConsoleInfo ''Message:\<newline>What is your name and why is the sky blue?\<newline>'',
         ReaderWrite agent_prefix ''starting new iteration'',
         ReaderWrite agent_prefix ''timeout'',
         LoggerError ''timeout'']
   \<and> filter is_LoggerError (written (script1 failing_world)) = [LoggerError ''timeout'']
   \<and> fst (script2_try failing_world init_process) = Inl (LLMFailure ''timeout'')
   \<and> written (script2 failing_world) =
        [ConsoleInfo (''User '' @ bust @ '' : What is the current weather in Las Vegas?''),
         ConsoleError ''timeout'']
   \<and> filter is_ConsoleError (written (script2 failing_world)) = [ConsoleError ''timeout'']
   \<and> CustomGermanAgent_run (customAgent failing_world)
         \<lparr>RunInput.message = script1_message\<rparr> None \<lparr>RunContext.signal = AbortSignal False\<rparr>
       = (Inl (LLMFailure ''timeout''), customAgent failing_world)"
proof -
  let ?e = "LLMFailure ''timeout''"
  let ?input = "\<lparr>RunInput.message = script1_message\<rparr>"
  let ?ctx = "\<lparr>RunContext.signal = AbortSignal False\<rparr>"
  note run1 = script1_failing_run
  have try2: "script2_try failing_world init_process =
      (Inl ?e, \<lparr>written =
         [ConsoleInfo (''User '' @ bust @ '' : What is the current weather in Las Vegas?'')],
         exit_code = None\<rparr>)"
    by (simp add: script2_try_def failing_world_def emit_def init_process_def)
  have run: "CustomGermanAgent_run (customAgent failing_world) ?input None ?ctx
               = (Inl ?e, snd (CustomGermanAgent_run (customAgent failing_world) ?input None ?ctx))"
    using run1 by (simp add: BaseAgent_run_def prod_eq_iff)
  note inst = errors_caught_once [of failing_world ?e "customAgent failing_world" ?input None ?ctx
      "snd (CustomGermanAgent_run (customAgent failing_world) ?input None ?ctx)"]
  from inst run1 have s1: "written (script1 failing_world) =
        ConsoleInfo (''Message:\<newline>'' @ msg_text script1_message @ ''\<newline>'')
        # concat (map (observer failing_world) (events failing_world))
        @ [LoggerError (dump failing_world (ensure failing_world ?e))]"
    and l1: "filter is_LoggerError (written (script1 failing_world))
               = [LoggerError (dump failing_world (ensure failing_world ?e))]"
    by blast+
  from inst try2 have s2: "written (script2 failing_world) =
        written (snd (script2_try failing_world init_process))
        @ [ConsoleError (dump failing_world (ensure failing_world ?e))]"
    and l2: "filter is_ConsoleError (written (script2 failing_world))
               = [ConsoleError (dump failing_world (ensure failing_world ?e))]"
    by simp_all
  from inst run have same: "snd (CustomGermanAgent_run (customAgent failing_world) ?input None ?ctx)
                = customAgent failing_world"
    by blast
  have d: "dump failing_world (ensure failing_world ?e) = ''timeout''"
    and ev: "events failing_world = [AgentStart, AgentError ?e]"
    by (simp_all add: failing_world_def)
  have m: "msg_text script1_message = ''What is your name and why is the sky blue?''"
    by (simp add: script1_message_def BaseMessage_of_def)
  from run1 s1 l1 try2 s2 l2 run same show ?thesis
    by (simp add: d ev m FrameworkError_dump_def)
qed


end
